theory Spec2Isabelle
  imports Complex_Main
begin

section \<open>Python values the program computes with\<close>

text \<open>
  The program is \<^verbatim>\<open>src/script.py\<close>. A Python \<^verbatim>\<open>str\<close> is modelled as a
  \<^typ>\<open>string\<close>, one \<^typ>\<open>char\<close> per code point, for the code points below 256.
  A Python \<^verbatim>\<open>int\<close> is an \<^typ>\<open>int\<close>. An exception that a function raises is the
  \<open>Inl\<close> branch of its result.
\<close>

datatype py_error = ValueError string | IndexError | Exception string

definition digit_chr :: "nat \<Rightarrow> char" where
  "digit_chr d = ''0123456789'' ! d"

text \<open>The decimal text of an integer, as an f-string prints it.\<close>

fun str_nat :: "nat \<Rightarrow> string" where
  "str_nat n = (if n < 10 then [digit_chr n] else str_nat (n div 10) @ [digit_chr (n mod 10)])"

declare str_nat.simps [simp del]

definition str_int :: "int \<Rightarrow> string" where
  "str_int i = (if i < 0 then CHR ''-'' # str_nat (nat (- i)) else str_nat (nat i))"

text \<open>
  \<^verbatim>\<open>xs[i]\<close> on a Python list: an index from \<open>-len(xs)\<close> to \<open>-1\<close> counts from the
  end, and an index outside \<open>-len(xs) .. len(xs) - 1\<close> raises IndexError.
\<close>

definition list_getitem :: "'a list \<Rightarrow> int \<Rightarrow> py_error + 'a" where
  "list_getitem xs i =
     (if 0 \<le> i \<and> i < int (length xs) then Inr (xs ! nat i)
      else if - int (length xs) \<le> i \<and> i < 0 then Inr (xs ! nat (int (length xs) + i))
      else Inl IndexError)"

section \<open>UniqueStringArray\<close>

text \<open>
  The two attributes \<^verbatim>\<open>_array\<close> and \<^verbatim>\<open>_string_to_index\<close> of the class. A method
  that mutates the object returns the updated record next to its result.
\<close>

record UniqueStringArray =
  array :: "string list"
  string_to_index :: "string \<rightharpoonup> int"

text \<open>
  \<^verbatim>\<open>__init__\<close>: the dict comprehension over \<^verbatim>\<open>enumerate(original_array)\<close> stores,
  for a string that occurs twice, the index of its last occurrence.
\<close>

definition UniqueStringArray_init :: "string list option \<Rightarrow> UniqueStringArray" where
  "UniqueStringArray_init original_array =
     (let original = (case original_array of None \<Rightarrow> [] | Some xs \<Rightarrow> xs)
      in \<lparr> array = original,
           string_to_index =
             foldl (\<lambda>d (i, s). d(s \<mapsto> i)) Map.empty
               (zip (map int [0 ..< length original]) original) \<rparr>)"

definition has_index :: "UniqueStringArray \<Rightarrow> int \<Rightarrow> bool" where
  "has_index self index = (index < int (length (array self)))"

definition has_string :: "UniqueStringArray \<Rightarrow> string \<Rightarrow> bool" where
  "has_string self s = (string_to_index self s \<noteq> None)"

text \<open>
  \<^verbatim>\<open>get_string\<close> returns the lines it prints and its result. \<^verbatim>\<open>if els:\<close> tests the
  truth value of the fallback: \<^verbatim>\<open>None\<close> and the empty string are both false.
\<close>

definition get_string :: "UniqueStringArray \<Rightarrow> int \<Rightarrow> string option \<Rightarrow> string list \<times> (py_error + string)" where
  "get_string self index els =
     (if \<not> has_index self index then
        (if els \<noteq> None \<and> els \<noteq> Some []
         then ([''index '' @ str_int index @ '' not in UniqueStringArray''], Inr (the els))
         else ([], Inl (ValueError (''index '' @ str_int index @ '' not in UniqueStringArray''))))
      else ([], list_getitem (array self) index))"

definition index_for_string :: "UniqueStringArray \<Rightarrow> string \<Rightarrow> int \<times> UniqueStringArray" where
  "index_for_string self s =
     (case string_to_index self s of
        None \<Rightarrow>
          (let index = int (length (array self))
           in (index, self\<lparr> string_to_index := (string_to_index self)(s \<mapsto> index),
                            array := array self @ [s] \<rparr>))
      | Some index \<Rightarrow> (index, self))"

definition serialize_to_array :: "UniqueStringArray \<Rightarrow> string list" where
  "serialize_to_array self = array self"

text \<open>
  Interning a sequence of strings one after the other: the indices returned, in call
  order, and the table after the last call.
\<close>

fun index_for_strings :: "UniqueStringArray \<Rightarrow> string list \<Rightarrow> int list \<times> UniqueStringArray" where
  "index_for_strings self [] = ([], self)"
| "index_for_strings self (s # ss) =
     (let (i, self1) = index_for_string self s;
          (is, self2) = index_for_strings self1 ss
      in (i # is, self2))"

section \<open>strip_ansi\<close>

text \<open>
  The pattern is \<^verbatim>\<open>\x1B\[\d+(;\d+){0,2}m\<close>: ESC, an opening bracket, one or more
  digits, at most two groups of a semicolon and one or more digits, and the letter m.
  Among the code points below 256 the class \<^verbatim>\<open>\d\<close> holds the ten ASCII digits.

  Each function below reads one piece of the pattern at the start of a string and
  returns what follows the piece, or \<open>None\<close> when the piece is not there.
  \<^verbatim>\<open>\d+\<close> is greedy and takes every digit: what follows it in the pattern is a
  semicolon or the letter m, so a match that gave a digit back would fail at once.
  The repetition \<^verbatim>\<open>{0,2}\<close> tries two groups, then one, then none, as the
  backtracking matcher does.
\<close>

definition isdigit :: "char \<Rightarrow> bool" where
  "isdigit c = (c \<in> set ''0123456789'')"

definition digits1 :: "string \<Rightarrow> string option" where
  "digits1 s =
     (case s of
        [] \<Rightarrow> None
      | c # cs \<Rightarrow> if isdigit c then Some (dropWhile isdigit cs) else None)"

definition literal :: "char \<Rightarrow> string \<Rightarrow> string option" where
  "literal x s = (case s of [] \<Rightarrow> None | c # cs \<Rightarrow> if c = x then Some cs else None)"

definition semicolon_digits :: "string \<Rightarrow> string option" where
  "semicolon_digits s = Option.bind (literal (CHR '';'') s) digits1"

definition groups_then_m :: "string \<Rightarrow> string option" where
  "groups_then_m s =
     (case Option.bind (Option.bind (semicolon_digits s) semicolon_digits) (literal (CHR ''m'')) of
        Some rest \<Rightarrow> Some rest
      | None \<Rightarrow>
          (case Option.bind (semicolon_digits s) (literal (CHR ''m'')) of
             Some rest \<Rightarrow> Some rest
           | None \<Rightarrow> literal (CHR ''m'') s))"

text \<open>A match of the whole pattern at the start of the string: what follows the match.\<close>

definition match_sgr :: "string \<Rightarrow> string option" where
  "match_sgr s =
     Option.bind (Option.bind (Option.bind (literal (CHR 0x1B) s) (literal (CHR ''['')))
       digits1) groups_then_m"

lemma digits1_shorter: "digits1 s = Some r \<Longrightarrow> length r < length s"
  by (auto simp: digits1_def less_Suc_eq_le length_dropWhile_le split: list.splits if_splits)

lemma literal_shorter: "literal x s = Some r \<Longrightarrow> length r < length s"
  by (auto simp: literal_def split: list.splits if_splits)

lemma semicolon_digits_shorter: "semicolon_digits s = Some r \<Longrightarrow> length r < length s"
  by (auto simp: semicolon_digits_def Option.bind_eq_Some_conv
      dest!: literal_shorter digits1_shorter)

lemma groups_then_m_shorter: "groups_then_m s = Some r \<Longrightarrow> length r < length s"
  by (auto simp: groups_then_m_def Option.bind_eq_Some_conv split: option.splits
      dest!: literal_shorter semicolon_digits_shorter)

lemma match_sgr_shorter: "match_sgr s = Some r \<Longrightarrow> length r < length s"
  by (auto simp: match_sgr_def Option.bind_eq_Some_conv
      dest!: literal_shorter digits1_shorter groups_then_m_shorter)

text \<open>
  \<^verbatim>\<open>pattern.sub("", string)\<close> scans from the left: where the pattern matches, the
  match is dropped and the scan goes on after it; elsewhere the character is kept. The
  pattern matches no empty string. The module's \<^verbatim>\<open>pattern\<close> variable caches the
  compiled pattern and changes no result.
\<close>

function strip_ansi :: "string \<Rightarrow> string" where
  "strip_ansi [] = []"
| "strip_ansi (c # cs) =
     (case match_sgr (c # cs) of
        Some rest \<Rightarrow> strip_ansi rest
      | None \<Rightarrow> c # strip_ansi cs)"
  by pat_completeness auto
termination
  by (relation "measure length") (auto dest: match_sgr_shorter)

text \<open>\<^verbatim>\<open>pattern.search(s) is not None\<close>: the pattern matches somewhere in the string.\<close>

fun has_sgr :: "string \<Rightarrow> bool" where
  "has_sgr [] = False"
| "has_sgr (c # cs) = (match_sgr (c # cs) \<noteq> None \<or> has_sgr cs)"

section \<open>run_command\<close>

text \<open>
  \<^verbatim>\<open>str.strip()\<close> removes the whitespace at both ends. Below 256 the whitespace
  code points are 9 to 13, 28 to 32, 133 and 160.
\<close>

definition isspace :: "char \<Rightarrow> bool" where
  "isspace c = (of_char c \<in> {9, 10, 11, 12, 13, 28, 29, 30, 31, 32, 133, 160 :: nat})"

definition strip :: "string \<Rightarrow> string" where
  "strip s = rev (dropWhile isspace (rev (dropWhile isspace s)))"

text \<open>
  A \<^verbatim>\<open>datetime\<close> through the three calls the program makes on it: \<open>dt_timestamp\<close>
  is the float \<^verbatim>\<open>dt.timestamp()\<close> (seconds since the epoch), \<open>dt_HMS\<close> is
  \<^verbatim>\<open>dt.strftime("%H:%M:%S")\<close> and \<open>dt_Ymd\<close> is \<^verbatim>\<open>dt.strftime("%Y-%m-%d")\<close>.
\<close>

record datetime =
  dt_timestamp :: real
  dt_HMS :: string
  dt_Ymd :: string

text \<open>
  The subprocess, as \<^verbatim>\<open>run_command\<close> sees it: \<open>stdout\<close> is \<open>None\<close> when
  \<^verbatim>\<open>process.stdout\<close> is missing, and otherwise the lines that iterating over the
  pipe yields, each with the value \<^verbatim>\<open>datetime.now()\<close> has while the loop body runs
  for that line.
\<close>

record process =
  stdout :: "(string \<times> datetime) list option"

text \<open>
  The loop body: \<^verbatim>\<open>print(line[:-1])\<close> echoes the line without its last character,
  and a line that is not all whitespace is appended to the buffer after
  \<^verbatim>\<open>strip_ansi\<close>, with its final newline. The state is the pair of the lines
  printed so far and the buffer.
\<close>

fun read_lines ::
  "string list \<times> (datetime \<times> string) list \<Rightarrow> (string \<times> datetime) list
   \<Rightarrow> string list \<times> (datetime \<times> string) list" where
  "read_lines (printed, buffer) [] = (printed, buffer)"
| "read_lines (printed, buffer) ((line, now) # rest) =
     read_lines
       (printed @ [butlast line],
        if strip line \<noteq> [] then buffer @ [(now, strip_ansi line)] else buffer)
       rest"

definition run_command :: "process \<Rightarrow> py_error + string list \<times> (datetime \<times> string) list" where
  "run_command proc =
     (case stdout proc of
        None \<Rightarrow> Inl (Exception ''No process stdout'')
      | Some lines \<Rightarrow> Inr (read_lines ([], []) lines))"

section \<open>The profile document\<close>

text \<open>
  The profile is a nested Python dict. The entries the program reads or writes are
  fields of records; an entry that is a constant of \<^verbatim>\<open>get_empty_profile\<close>,
  \<^verbatim>\<open>get_empty_thread\<close> or \<^verbatim>\<open>get_task_schema\<close> and is never touched again is kept
  as a JSON value. A field carries the name of its key after a prefix for its dict:
  \<open>meta_\<close>, \<open>cat_\<close> (a category), \<open>th_\<close> (a thread), \<open>mk_\<close> (the marker table) and
  \<open>md_\<close> (one marker's data).
\<close>

datatype json =
  JNull | JBool bool | JInt int | JStr string | JList "json list" | JObj "(string \<times> json) list"

text \<open>
  A Python float is a real number that the float format represents. An arithmetic
  operation returns the exact result rounded to the format; the rounding is the
  parameter \<open>rnd\<close> of every function that computes with floats. The theorems say
  which properties of the rounding they rest on: that it is monotone and that it keeps
  zero, both of which hold of IEEE 754 rounding to nearest.
\<close>

type_synonym rounding = "real \<Rightarrow> real"

record category =
  cat_name :: string
  cat_color :: string
  cat_subcategories :: "string list"

record profile_meta =
  meta_interval :: int
  meta_startTime :: real
  meta_abi :: string
  meta_misc :: string
  meta_oscpu :: string
  meta_platform :: string
  meta_processType :: int
  meta_extensions :: json
  meta_categories :: "category list"
  meta_product :: string
  meta_stackwalk :: int
  meta_toolkit :: string
  meta_version :: int
  meta_preprocessedProfileVersion :: int
  meta_appBuildID :: string
  meta_sourceURL :: string
  meta_physicalCPUs :: int
  meta_logicalCPUs :: int
  meta_CPUName :: string
  meta_symbolicated :: bool
  meta_markerSchema :: "json list"

record marker_data =
  md_type :: string
  md_name :: string
  md_line :: string
  md_hour :: string
  md_date :: string

record marker_table =
  mk_data :: "marker_data list"
  mk_name :: "int list"
  mk_startTime :: "real list"
  mk_endTime :: "real option list"
  mk_phase :: "int list"
  mk_category :: "int list"
  mk_length :: int

record thread =
  th_processType :: string
  th_processStartupTime :: int
  th_processShutdownTime :: "int option"
  th_registerTime :: int
  th_unregisterTime :: "int option"
  th_pausedRanges :: "json list"
  th_name :: string
  th_isMainThread :: bool
  th_pid :: string
  th_tid :: int
  th_samples :: json
  th_markers :: marker_table
  th_stackTable :: json
  th_frameTable :: json
  th_stringArray :: "string list"
  th_funcTable :: json
  th_resourceTable :: json
  th_nativeSymbols :: json

record profile =
  meta :: profile_meta
  libs :: "json list"
  pages :: "json list"
  threads :: "thread list"

definition get_categories :: "category list" where
  "get_categories =
     [\<lparr> cat_name = ''sh-profile'', cat_color = ''lightblue'', cat_subcategories = [''Other''] \<rparr>]"

definition get_task_schema :: json where
  "get_task_schema =
     JObj [
       (''name'', JStr ''sh-profile''),
       (''tooltipLabel'', JStr ''{marker.data.line}''),
       (''tableLabel'', JStr ''{marker.data.line}''),
       (''chartLabel'', JStr ''{marker.data.line}''),
       (''display'', JList [JStr ''marker-chart'', JStr ''marker-table'', JStr ''timeline-overview'']),
       (''data'', JList [
          JObj [(''key'', JStr ''startTime''), (''label'', JStr ''Start time''),
                (''format'', JStr ''string'')],
          JObj [(''key'', JStr ''line''), (''label'', JStr ''Line''),
                (''format'', JStr ''string''), (''searchable'', JStr ''true'')],
          JObj [(''key'', JStr ''hour''), (''label'', JStr ''Hour''),
                (''format'', JStr ''string'')],
          JObj [(''key'', JStr ''date''), (''label'', JStr ''Date''),
                (''format'', JStr ''string'')],
          JObj [(''key'', JStr ''time''), (''label'', JStr ''Time''),
                (''format'', JStr ''time'')]])]"

text \<open>
  \<open>clock\<close> is the float that \<^verbatim>\<open>time.time()\<close> returns when the empty profile is
  created.
\<close>

definition get_empty_profile :: "rounding \<Rightarrow> real \<Rightarrow> profile" where
  "get_empty_profile rnd clock =
     \<lparr> meta =
         \<lparr> meta_interval = 1,
           meta_startTime = rnd (clock * 1000),
           meta_abi = '''',
           meta_misc = '''',
           meta_oscpu = '''',
           meta_platform = '''',
           meta_processType = 0,
           meta_extensions =
             JObj [(''id'', JList []), (''name'', JList []), (''baseURL'', JList []),
                   (''length'', JInt 0)],
           meta_categories = get_categories,
           meta_product = ''sh-profile'',
           meta_stackwalk = 0,
           meta_toolkit = '''',
           meta_version = 29,
           meta_preprocessedProfileVersion = 48,
           meta_appBuildID = '''',
           meta_sourceURL = '''',
           meta_physicalCPUs = 0,
           meta_logicalCPUs = 0,
           meta_CPUName = '''',
           meta_symbolicated = True,
           meta_markerSchema = [get_task_schema] \<rparr>,
       libs = [],
       pages = [],
       threads = [] \<rparr>"

definition get_empty_thread :: thread where
  "get_empty_thread =
     \<lparr> th_processType = ''default'',
       th_processStartupTime = 0,
       th_processShutdownTime = None,
       th_registerTime = 0,
       th_unregisterTime = None,
       th_pausedRanges = [],
       th_name = ''Empty'',
       th_isMainThread = True,
       th_pid = ''0'',
       th_tid = 0,
       th_samples =
         JObj [(''weightType'', JStr ''tracing-ms''), (''weight'', JList []),
               (''stack'', JList []), (''time'', JList []), (''length'', JInt 0)],
       th_markers =
         \<lparr> mk_data = [], mk_name = [], mk_startTime = [], mk_endTime = [], mk_phase = [],
           mk_category = [], mk_length = 0 \<rparr>,
       th_stackTable =
         JObj [(''frame'', JList []), (''prefix'', JList []), (''category'', JList []),
               (''subcategory'', JList []), (''length'', JInt 0)],
       th_frameTable =
         JObj [(''address'', JList []), (''inlineDepth'', JList []), (''category'', JList []),
               (''subcategory'', JList []), (''func'', JList []), (''nativeSymbol'', JList []),
               (''innerWindowID'', JList []), (''implementation'', JList []),
               (''line'', JList []), (''column'', JList []), (''length'', JInt 0)],
       th_stringArray = [],
       th_funcTable =
         JObj [(''isJS'', JList []), (''relevantForJS'', JList []), (''name'', JList []),
               (''resource'', JList []), (''fileName'', JList []), (''lineNumber'', JList []),
               (''columnNumber'', JList []), (''length'', JInt 0)],
       th_resourceTable =
         JObj [(''lib'', JList []), (''name'', JList []), (''host'', JList []),
               (''type'', JList []), (''length'', JInt 0)],
       th_nativeSymbols =
         JObj [(''libIndex'', JList []), (''address'', JList []), (''name'', JList []),
               (''functionSize'', JList []), (''length'', JInt 0)] \<rparr>"

section \<open>build_profile\<close>

definition get_timestamp_ms :: "rounding \<Rightarrow> datetime \<Rightarrow> real" where
  "get_timestamp_ms rnd dt = rnd (dt_timestamp dt * 1000)"

text \<open>
  The body of the loop over the buffer. Its state is the marker table and the string
  table; \<open>profile_start_time\<close> and \<open>category_index_dict\<close> are fixed before the loop.
\<close>

fun add_markers ::
  "rounding \<Rightarrow> real \<Rightarrow> (string \<rightharpoonup> int) \<Rightarrow> marker_table \<times> UniqueStringArray
   \<Rightarrow> (datetime \<times> string) list \<Rightarrow> marker_table \<times> UniqueStringArray" where
  "add_markers rnd profile_start_time category_index_dict (markers, string_array) [] =
     (markers, string_array)"
| "add_markers rnd profile_start_time category_index_dict (markers, string_array)
     ((dt, line) # buffer) =
     (let run_start = get_timestamp_ms rnd dt;
          instant_marker = 0;
          (name_index, string_array1) = index_for_string string_array ''sh-profile'';
          markers1 = markers
            \<lparr> mk_startTime := mk_startTime markers @ [rnd (run_start - profile_start_time)],
              mk_endTime := mk_endTime markers @ [None],
              mk_phase := mk_phase markers @ [instant_marker],
              mk_category := mk_category markers @
                [case category_index_dict ''sh-profile'' of None \<Rightarrow> 0 | Some i \<Rightarrow> i],
              mk_name := mk_name markers @ [name_index],
              mk_data := mk_data markers @
                [\<lparr> md_type = ''sh-profile'', md_name = ''sh-profile'', md_line = line,
                   md_hour = dt_HMS dt, md_date = dt_Ymd dt \<rparr>],
              mk_length := mk_length markers + 1 \<rparr>
      in add_markers rnd profile_start_time category_index_dict (markers1, string_array1) buffer)"

text \<open>
  The Python appends the thread to \<^verbatim>\<open>profile["threads"]\<close> before it fills the
  marker table; the list holds a reference, so the profile returned has the thread as
  it is after the loop. The model appends the finished thread.
\<close>

definition build_profile :: "rounding \<Rightarrow> real \<Rightarrow> (datetime \<times> string) list \<Rightarrow> profile" where
  "build_profile rnd clock buffer =
     (let profile0 = get_empty_profile rnd clock;
          profile_start_time =
            (if buffer \<noteq> [] then get_timestamp_ms rnd (fst (hd buffer)) else 0);
          profile1 =
            (if buffer \<noteq> []
             then profile0\<lparr> meta := (meta profile0)\<lparr> meta_startTime := profile_start_time \<rparr> \<rparr>
             else profile0);
          thread0 = get_empty_thread\<lparr> th_name := ''sh-profile'', th_isMainThread := True \<rparr>;
          category_index_dict =
            foldl (\<lambda>d (index, category). d(cat_name category \<mapsto> index)) Map.empty
              (zip (map int [0 ..< length (meta_categories (meta profile1))])
                 (meta_categories (meta profile1)));
          (markers, string_array) =
            add_markers rnd profile_start_time category_index_dict
              (th_markers thread0, UniqueStringArray_init None) buffer;
          thread1 = thread0
            \<lparr> th_markers := markers, th_stringArray := serialize_to_array string_array \<rparr>
      in profile1\<lparr> threads := threads profile1 @ [thread1] \<rparr>)"

section \<open>The one-time server\<close>

text \<open>
  What the program does to the outside, in order. \<open>PrintHelp\<close> is
  \<^verbatim>\<open>parser.print_help()\<close>, with the stream the usage text goes to: argparse writes
  it to \<^verbatim>\<open>sys.stdout\<close> when the call names no file. \<open>Popen\<close> is the start of the
  subprocess, \<open>BrowserOpen\<close> the call of \<^verbatim>\<open>webbrowser.open\<close> with the port and the
  display name that go into the URL, \<open>SendHeaders\<close> a status line and headers that
  reached a client, and \<open>SendBody\<close> a response body that reached a client. \<open>'d\<close> is
  the type of \<^verbatim>\<open>profile_data\<close>, the encoded profile.
\<close>

datatype stream = StdOut | StdErr

datatype 'd effect =
    Print stream string
  | PrintHelp stream
  | Popen "string list"
  | BrowserOpen nat string
  | SendHeaders nat "(string \<times> string) list"
  | SendBody 'd

text \<open>
  A request, as the handler meets it: its method, and what its connection does when
  the response is written. \<open>Raises msg\<close> is a write that raises an exception whose
  text is \<open>msg\<close>. The headers are written when \<^verbatim>\<open>end_headers\<close> flushes them, the body
  when \<^verbatim>\<open>do_GET\<close> calls \<^verbatim>\<open>wfile.write\<close>. \<open>OTHER\<close> is a method the class has no
  \<^verbatim>\<open>do_\<close> function for.
\<close>

datatype http_method = GET | HEAD | OTHER

datatype write_result = Written | Raises string

record request =
  req_method :: http_method
  req_headers_write :: write_result
  req_body_write :: write_result

text \<open>
  The module's global \<^verbatim>\<open>waiting_for_request\<close>, and the effects so far.
\<close>

record 'd server =
  waiting_for_request :: bool
  effects :: "'d effect list"

definition set_headers :: "'d server \<Rightarrow> request \<Rightarrow> py_error + 'd server" where
  "set_headers st req =
     (case req_headers_write req of
        Raises msg \<Rightarrow> Inl (Exception msg)
      | Written \<Rightarrow>
          Inr (st\<lparr> effects := effects st @
            [SendHeaders 200 [(''Content-type'', ''application/json''),
                              (''Access-Control-Allow-Origin'', ''*'')]] \<rparr>))"

definition do_HEAD :: "'d server \<Rightarrow> request \<Rightarrow> py_error + 'd server" where
  "do_HEAD st req = set_headers st req"

text \<open>
  \<^verbatim>\<open>do_GET\<close>: an exception of \<^verbatim>\<open>_set_headers\<close> leaves the function at once. A
  failure of \<^verbatim>\<open>wfile.write\<close> is caught and printed, and the assignment to
  \<^verbatim>\<open>waiting_for_request\<close> follows in both cases.
\<close>

definition do_GET :: "'d \<Rightarrow> 'd server \<Rightarrow> request \<Rightarrow> py_error + 'd server" where
  "do_GET profile_data st req =
     (case set_headers st req of
        Inl e \<Rightarrow> Inl e
      | Inr st1 \<Rightarrow>
          (let st2 =
             (case req_body_write req of
                Written \<Rightarrow> st1\<lparr> effects := effects st1 @ [SendBody profile_data] \<rparr>
              | Raises msg \<Rightarrow>
                  st1\<lparr> effects := effects st1 @
                    [Print StdOut (''Failed to serve the file '' @ msg)] \<rparr>)
           in Inr (st2\<lparr> waiting_for_request := False \<rparr>)))"

text \<open>
  \<^verbatim>\<open>server.handle_request()\<close> for one request. The library calls \<^verbatim>\<open>do_GET\<close> or
  \<^verbatim>\<open>do_HEAD\<close> by the method's name; it catches an exception of the handler and goes
  on, and it answers a method without a handler function with status 501 itself.
\<close>

definition handle_request :: "'d \<Rightarrow> 'd server \<Rightarrow> request \<Rightarrow> 'd server" where
  "handle_request profile_data st req =
     (case req_method req of
        GET \<Rightarrow> (case do_GET profile_data st req of Inl e \<Rightarrow> st | Inr st1 \<Rightarrow> st1)
      | HEAD \<Rightarrow> (case do_HEAD st req of Inl e \<Rightarrow> st | Inr st1 \<Rightarrow> st1)
      | OTHER \<Rightarrow>
          (case req_headers_write req of
             Raises msg \<Rightarrow> st
           | Written \<Rightarrow>
               st\<lparr> effects := effects st @ [SendHeaders 501 []] \<rparr>))"

text \<open>
  The loop \<^verbatim>\<open>while waiting_for_request: server.handle_request()\<close> over the requests
  that arrive, in order. \<open>Stopped\<close> is the loop left, with the requests that arrived
  and were not handled; \<open>Listening\<close> is the loop still blocked in
  \<^verbatim>\<open>handle_request\<close> after the last request that arrived.
\<close>

datatype 'd loop_result = Stopped "'d server" "request list" | Listening "'d server"

fun serve_loop :: "'d \<Rightarrow> 'd server \<Rightarrow> request list \<Rightarrow> 'd loop_result" where
  "serve_loop profile_data st [] =
     (if waiting_for_request st then Listening st else Stopped st [])"
| "serve_loop profile_data st (req # requests) =
     (if waiting_for_request st
      then serve_loop profile_data (handle_request profile_data st req) requests
      else Stopped st (req # requests))"

text \<open>\<^verbatim>\<open>" ".join(command)\<close>.\<close>

fun join_space :: "string list \<Rightarrow> string" where
  "join_space [] = []"
| "join_space [x] = x"
| "join_space (x # y # ys) = x @ '' '' @ join_space (y # ys)"

text \<open>
  \<^verbatim>\<open>open_profile\<close>: \<open>port\<close> is the port \<^verbatim>\<open>get_free_port\<close> returns and \<open>requests\<close>
  the requests that arrive at it. The profile stands for its own JSON text. The global
  \<^verbatim>\<open>waiting_for_request\<close> is \<^verbatim>\<open>True\<close> when the module is loaded.
\<close>

definition open_profile :: "profile \<Rightarrow> string list \<Rightarrow> nat \<Rightarrow> request list \<Rightarrow> profile loop_result" where
  "open_profile prof command port requests =
     serve_loop prof
       \<lparr> waiting_for_request = True, effects = [BrowserOpen port (join_space command)] \<rparr>
       requests"

section \<open>main\<close>

text \<open>
  What the run meets outside the program: the subprocess, the clock reading of
  \<^verbatim>\<open>time.time()\<close>, the free port, and the requests that arrive. \<open>command\<close> is
  \<^verbatim>\<open>args.command\<close>, the arguments argparse collected.
\<close>

record world =
  w_process :: process
  w_clock :: real
  w_port :: nat
  w_requests :: "request list"

datatype outcome = Exit int | Raised py_error | Returned | Waiting

definition main :: "rounding \<Rightarrow> world \<Rightarrow> string list \<Rightarrow> profile effect list \<times> outcome" where
  "main rnd w command =
     (if command = [] then ([PrintHelp StdOut], Exit 1)
      else if hd command \<noteq> ''--'' then
        ([Print StdErr ''No -- was found at the start of the command'', PrintHelp StdOut], Exit 1)
      else
        (case run_command (w_process w) of
           Inl e \<Rightarrow> ([Popen (tl command)], Raised e)
         | Inr (printed, buffer) \<Rightarrow>
             (let prof = build_profile rnd (w_clock w) buffer;
                  before = Popen (tl command) # map (Print StdOut) printed
              in case open_profile prof command (w_port w) (w_requests w) of
                   Stopped st rest \<Rightarrow> (before @ effects st, Returned)
                 | Listening st \<Rightarrow> (before @ effects st, Waiting))))"

text \<open>
  \<^verbatim>\<open>profile["threads"][0]["markers"]\<close>, the marker table of the profile's thread.
\<close>

definition markers_of :: "profile \<Rightarrow> marker_table" where
  "markers_of prof = th_markers (hd (threads prof))"

text \<open>A datetime for examples, with a given timestamp.\<close>

definition datetime_at :: "real \<Rightarrow> datetime" where
  "datetime_at t = \<lparr> dt_timestamp = t, dt_HMS = ''00:00:00'', dt_Ymd = ''1970-01-01'' \<rparr>"

text \<open>
  The state of a string table that interning builds from the empty table: the keys of
  the dict are the strings of the list, and no string is in the list twice.
\<close>

definition table_ok :: "UniqueStringArray \<Rightarrow> bool" where
  "table_ok self = (dom (string_to_index self) = set (array self) \<and> distinct (array self))"

text \<open>
  The requests whose handling assigns \<^verbatim>\<open>False\<close> to \<^verbatim>\<open>waiting_for_request\<close>: a GET
  whose headers are written, so that \<^verbatim>\<open>do_GET\<close> runs to its last line.
\<close>

definition ends_loop :: "request \<Rightarrow> bool" where
  "ends_loop req = (req_method req = GET \<and> req_headers_write req = Written)"

section \<open>Properties of the string table\<close>

lemma table_ok_init: "table_ok (UniqueStringArray_init None)"
  by (simp add: table_ok_def UniqueStringArray_init_def)

lemma index_for_string_new:
  "s \<notin> set (array self) \<Longrightarrow> table_ok self \<Longrightarrow>
   index_for_string self s =
     (int (length (array self)),
      self\<lparr> string_to_index := (string_to_index self)(s \<mapsto> int (length (array self))),
            array := array self @ [s] \<rparr>)"
  by (auto simp: index_for_string_def table_ok_def Let_def split: option.splits)

lemma index_for_string_old:
  "s \<in> set (array self) \<Longrightarrow> table_ok self \<Longrightarrow> snd (index_for_string self s) = self"
  by (auto simp: index_for_string_def table_ok_def Let_def split: option.splits)

lemma table_ok_step: "table_ok self \<Longrightarrow> table_ok (snd (index_for_string self s))"
  by (cases "s \<in> set (array self)")
     (auto simp: index_for_string_new index_for_string_old, auto simp: table_ok_def)

lemma array_step:
  "table_ok self \<Longrightarrow>
   array (snd (index_for_string self s)) =
     (if s \<in> set (array self) then array self else array self @ [s])"
  by (simp add: index_for_string_new index_for_string_old)

lemma index_for_strings_fresh:
  "table_ok self \<Longrightarrow> distinct ss \<Longrightarrow> set ss \<inter> set (array self) = {} \<Longrightarrow>
   fst (index_for_strings self ss) =
     map int [length (array self) ..< length (array self) + length ss]"
proof (induction ss arbitrary: self)
  case Nil
  then show ?case by simp
next
  case (Cons s ss)
  let ?self1 = "snd (index_for_string self s)"
  have new: "s \<notin> set (array self)" using Cons.prems by auto
  have ok1: "table_ok ?self1" using Cons.prems(1) by (rule table_ok_step)
  have arr1: "array ?self1 = array self @ [s]" using new Cons.prems(1) by (simp add: array_step)
  have "set ss \<inter> set (array ?self1) = {}" using Cons.prems arr1 by auto
  then have ih: "fst (index_for_strings ?self1 ss) =
      map int [length (array ?self1) ..< length (array ?self1) + length ss]"
    using Cons.IH [OF ok1] Cons.prems by simp
  have "fst (index_for_string self s) = int (length (array self))"
    using new Cons.prems(1) by (simp add: index_for_string_new)
  moreover have "[length (array self) ..< length (array self) + length (s # ss)] =
      length (array self) # [Suc (length (array self)) ..< Suc (length (array self)) + length ss]"
    using upt_conv_Cons [of "length (array self)" "length (array self) + length (s # ss)"]
    by simp
  ultimately show ?case
    using ih arr1 by (simp add: split_beta Let_def del: upt_Suc)
qed

lemma index_for_strings_array:
  "table_ok self \<Longrightarrow>
   table_ok (snd (index_for_strings self ss)) \<and>
   set (array (snd (index_for_strings self ss))) = set (array self) \<union> set ss"
proof (induction ss arbitrary: self)
  case Nil
  then show ?case by simp
next
  case (Cons s ss)
  let ?self1 = "snd (index_for_string self s)"
  have ok1: "table_ok ?self1" using Cons.prems by (rule table_ok_step)
  have "set (array ?self1) = insert s (set (array self))"
    using Cons.prems by (auto simp: array_step)
  then show ?case using Cons.IH [OF ok1] by (auto simp: split_beta Let_def)
qed

lemma interning_twice:
  "fst (index_for_string (snd (index_for_string self s)) s) = fst (index_for_string self s)
   \<and> snd (index_for_string (snd (index_for_string self s)) s) = snd (index_for_string self s)"
  by (simp add: index_for_string_def Let_def split: option.splits)

text \<open>
  Claim C5. Interning a string twice in the same table, whatever the table, returns the
  same index both times. Interning distinct strings into a fresh table returns the
  indices 0, 1, ..., n - 1 in the order of the calls. The list that
  \<^verbatim>\<open>serialize_to_array\<close> returns after any sequence of strings was interned into a
  fresh table has as many entries as there are distinct strings in the sequence.
\<close>

theorem interning_indices:
  "fst (index_for_string (snd (index_for_string self s)) s) = fst (index_for_string self s)
   \<and> (distinct ss \<longrightarrow>
        fst (index_for_strings (UniqueStringArray_init None) ss) = map int [0 ..< length ss])
   \<and> length (serialize_to_array (snd (index_for_strings (UniqueStringArray_init None) ss)))
        = card (set ss)"
proof -
  let ?fresh = "UniqueStringArray_init None"
  have empty: "array ?fresh = []" by (simp add: UniqueStringArray_init_def)
  have a: "distinct ss \<longrightarrow> fst (index_for_strings ?fresh ss) = map int [0 ..< length ss]"
    using index_for_strings_fresh [OF table_ok_init, of ss] empty by simp
  have "table_ok (snd (index_for_strings ?fresh ss))"
    and "set (array (snd (index_for_strings ?fresh ss))) = set ss"
    using index_for_strings_array [OF table_ok_init, of ss] empty by simp_all
  then have b: "length (serialize_to_array (snd (index_for_strings ?fresh ss))) = card (set ss)"
    by (metis distinct_card serialize_to_array_def table_ok_def)
  show ?thesis using a b interning_twice by blast
qed

text \<open>The three parts at the strings ls, cd and pwd.\<close>

theorem interning_indices_witness:
  "fst (index_for_string (snd (index_for_string (UniqueStringArray_init None) ''ls'')) ''ls'')
     = fst (index_for_string (UniqueStringArray_init None) ''ls'')
   \<and> distinct [''ls'', ''cd'', ''pwd'']
   \<and> fst (index_for_strings (UniqueStringArray_init None) [''ls'', ''cd'', ''pwd'']) = [0, 1, 2]
   \<and> length (serialize_to_array
        (snd (index_for_strings (UniqueStringArray_init None) [''ls'', ''cd'', ''pwd'']))) = 3"
  using interning_indices [of "UniqueStringArray_init None" "''ls''" "[''ls'', ''cd'', ''pwd'']"]
  by (simp add: upt_conv_Cons)

lemma str_nat_0: "str_nat 0 = ''0''" by (simp add: str_nat.simps digit_chr_def)
lemma str_nat_1: "str_nat (Suc 0) = ''1''" by (simp add: str_nat.simps digit_chr_def)

text \<open>
  Claim C8, as the code has it. For every table and every index that is at least the
  table's size, \<^verbatim>\<open>get_string\<close> with no fallback raises ValueError (index not in
  UniqueStringArray), and with a fallback that is a non-empty string it prints the
  message and returns the fallback.
\<close>

theorem get_string_out_of_range:
  assumes "int (length (array self)) \<le> index"
  shows "get_string self index None
           = ([], Inl (ValueError (''index '' @ str_int index @ '' not in UniqueStringArray'')))
       \<and> (els \<noteq> [] \<longrightarrow>
            get_string self index (Some els)
              = ([''index '' @ str_int index @ '' not in UniqueStringArray''], Inr els))"
  using assms by (simp add: get_string_def has_index_def)

text \<open>A table of one string, asked for index 1 without and with the fallback \<open>?\<close>.\<close>

theorem get_string_out_of_range_witness:
  "int (length (array (UniqueStringArray_init (Some [''ls''])))) \<le> 1
   \<and> get_string (UniqueStringArray_init (Some [''ls''])) 1 None
       = ([], Inl (ValueError ''index 1 not in UniqueStringArray''))
   \<and> ''?'' \<noteq> []
   \<and> get_string (UniqueStringArray_init (Some [''ls''])) 1 (Some ''?'')
       = ([''index 1 not in UniqueStringArray''], Inr ''?'')"
  using get_string_out_of_range [of "UniqueStringArray_init (Some [''ls''])" 1 "''?''"]
  by (simp add: UniqueStringArray_init_def str_int_def str_nat_1)

text \<open>
  Claim C8 as stated fails: with the empty string supplied as the fallback, the call
  raises ValueError and does not return the fallback.
\<close>

theorem get_string_empty_fallback_counterexample:
  "int (length (array (UniqueStringArray_init None))) \<le> 0
   \<and> get_string (UniqueStringArray_init None) 0 (Some '''')
       = ([], Inl (ValueError ''index 0 not in UniqueStringArray''))"
  by (simp add: get_string_def has_index_def UniqueStringArray_init_def str_int_def str_nat_0)

text \<open>
  Claim C10. For a table of n > 0 strings and an index from -n to -1,
  \<^verbatim>\<open>has_index\<close> is true and \<^verbatim>\<open>get_string\<close> returns the string at position
  n + index, whatever the fallback; \<^verbatim>\<open>has_index\<close> is false exactly for the indices
  that are at least n.
\<close>

theorem negative_index:
  assumes "0 < length (array self)"
    and "- int (length (array self)) \<le> index" and "index < 0"
  shows "has_index self index
       \<and> get_string self index els
           = ([], Inr (array self ! nat (int (length (array self)) + index)))
       \<and> (\<forall>i. (\<not> has_index self i) = (int (length (array self)) \<le> i))"
  using assms by (auto simp: get_string_def has_index_def list_getitem_def)

text \<open>A table of two strings, read at the indices -1 and -2.\<close>

theorem negative_index_witness:
  "0 < length (array (UniqueStringArray_init (Some [''ls'', ''cd''])))
   \<and> - int (length (array (UniqueStringArray_init (Some [''ls'', ''cd''])))) \<le> - 1
   \<and> (- 1 :: int) < 0
   \<and> has_index (UniqueStringArray_init (Some [''ls'', ''cd''])) (- 1)
   \<and> get_string (UniqueStringArray_init (Some [''ls'', ''cd''])) (- 1) None = ([], Inr ''cd'')
   \<and> get_string (UniqueStringArray_init (Some [''ls'', ''cd''])) (- 2) None = ([], Inr ''ls'')"
  using negative_index [of "UniqueStringArray_init (Some [''ls'', ''cd''])" "- 1" None]
    negative_index [of "UniqueStringArray_init (Some [''ls'', ''cd''])" "- 2" None]
  by (simp add: UniqueStringArray_init_def)

section \<open>Properties of strip_ansi\<close>

lemma strip_ansi_length: "length (strip_ansi s) \<le> length s"
proof (induction s rule: strip_ansi.induct)
  case 1
  then show ?case by simp
next
  case (2 c cs)
  show ?case
  proof (cases "match_sgr (c # cs)")
    case None
    then show ?thesis using "2.IH" by simp
  next
    case (Some rest)
    then have "length rest < length (c # cs)" by (rule match_sgr_shorter)
    then show ?thesis using "2.IH" Some by simp
  qed
qed

lemma strip_ansi_fixed: "(strip_ansi s = s) = (\<not> has_sgr s)"
proof (induction s rule: strip_ansi.induct)
  case 1
  then show ?case by simp
next
  case (2 c cs)
  show ?case
  proof (cases "match_sgr (c # cs)")
    case None
    then show ?thesis using "2.IH" by simp
  next
    case (Some rest)
    have "length (strip_ansi rest) \<le> length rest" by (rule strip_ansi_length)
    moreover have "length rest < length (c # cs)" using Some by (rule match_sgr_shorter)
    ultimately have "length (strip_ansi (c # cs)) < length (c # cs)" using Some by simp
    then have "strip_ansi (c # cs) \<noteq> c # cs" by (metis less_irrefl)
    then show ?thesis using Some by simp
  qed
qed

lemma match_sgr_not_esc: "c \<noteq> CHR 0x1B \<Longrightarrow> match_sgr (c # cs) = None"
  by (simp add: match_sgr_def literal_def)

lemma strip_ansi_hello:
  "strip_ansi (CHR 0x1B # ''[31mHELLO'' @ CHR 0x1B # ''[0m'') = ''HELLO''"
  by (simp add: match_sgr_def literal_def digits1_def isdigit_def groups_then_m_def
      semicolon_digits_def)

text \<open>
  Claim C6, as the code has it. \<^verbatim>\<open>strip_ansi\<close> returns a string unchanged exactly
  when the pattern matches nowhere in it. So stripping a stripped string returns it
  unchanged exactly when the first stripping left no match behind, and a string with
  no match is returned as it is. Stripping ESC [31m HELLO ESC [0m gives HELLO.
\<close>

theorem strip_ansi_twice:
  "(strip_ansi (strip_ansi s) = strip_ansi s) = (\<not> has_sgr (strip_ansi s))
   \<and> (\<not> has_sgr s \<longrightarrow> strip_ansi s = s)
   \<and> strip_ansi (CHR 0x1B # ''[31mHELLO'' @ CHR 0x1B # ''[0m'') = ''HELLO''"
  using strip_ansi_fixed [of "strip_ansi s"] strip_ansi_fixed [of s] strip_ansi_hello
  by blast

text \<open>The string HELLO has no match; the coloured HELLO is stripped once and for all.\<close>

theorem strip_ansi_twice_witness:
  "\<not> has_sgr ''HELLO''
   \<and> strip_ansi ''HELLO'' = ''HELLO''
   \<and> strip_ansi (strip_ansi (CHR 0x1B # ''[31mHELLO'' @ CHR 0x1B # ''[0m''))
       = strip_ansi (CHR 0x1B # ''[31mHELLO'' @ CHR 0x1B # ''[0m'')"
  using strip_ansi_twice [of "''HELLO''"]
    strip_ansi_twice [of "CHR 0x1B # ''[31mHELLO'' @ CHR 0x1B # ''[0m''"]
  by (simp add: match_sgr_not_esc)

text \<open>
  Claim C6 as stated fails: in ESC [ ESC [0m 0m the first stripping removes the inner
  sequence and leaves ESC [0m, which the second stripping removes.
\<close>

theorem strip_ansi_twice_counterexample:
  "strip_ansi (CHR 0x1B # ''['' @ CHR 0x1B # ''[0m0m'') = CHR 0x1B # ''[0m''
   \<and> strip_ansi (strip_ansi (CHR 0x1B # ''['' @ CHR 0x1B # ''[0m0m'')) = ''''
   \<and> strip_ansi (strip_ansi (CHR 0x1B # ''['' @ CHR 0x1B # ''[0m0m''))
       \<noteq> strip_ansi (CHR 0x1B # ''['' @ CHR 0x1B # ''[0m0m'')"
  by (simp add: match_sgr_def literal_def digits1_def isdigit_def groups_then_m_def
      semicolon_digits_def)

section \<open>Properties of the profile builder\<close>

lemma add_markers_startTime:
  "mk_startTime (fst (add_markers rnd t0 d (m, sa) buffer)) =
     mk_startTime m @ map (\<lambda>e. rnd (get_timestamp_ms rnd (fst e) - t0)) buffer"
  by (induction buffer arbitrary: m sa) (auto simp: split_beta Let_def)

lemma add_markers_endTime:
  "mk_endTime (fst (add_markers rnd t0 d (m, sa) buffer)) =
     mk_endTime m @ replicate (length buffer) None"
  by (induction buffer arbitrary: m sa) (auto simp: split_beta Let_def replicate_app_Cons_same)

lemma add_markers_phase:
  "mk_phase (fst (add_markers rnd t0 d (m, sa) buffer)) =
     mk_phase m @ replicate (length buffer) 0"
  by (induction buffer arbitrary: m sa) (auto simp: split_beta Let_def replicate_app_Cons_same)

lemma add_markers_category:
  "length (mk_category (fst (add_markers rnd t0 d (m, sa) buffer))) =
     length (mk_category m) + length buffer"
  by (induction buffer arbitrary: m sa) (auto simp: split_beta Let_def)

lemma add_markers_name:
  "length (mk_name (fst (add_markers rnd t0 d (m, sa) buffer))) =
     length (mk_name m) + length buffer"
  by (induction buffer arbitrary: m sa) (auto simp: split_beta Let_def)

lemma add_markers_data:
  "mk_data (fst (add_markers rnd t0 d (m, sa) buffer)) =
     mk_data m @
     map (\<lambda>e. \<lparr> md_type = ''sh-profile'', md_name = ''sh-profile'', md_line = snd e,
                md_hour = dt_HMS (fst e), md_date = dt_Ymd (fst e) \<rparr>) buffer"
  by (induction buffer arbitrary: m sa) (auto simp: split_beta Let_def)

lemma add_markers_length:
  "mk_length (fst (add_markers rnd t0 d (m, sa) buffer)) = mk_length m + int (length buffer)"
  by (induction buffer arbitrary: m sa) (auto simp: split_beta Let_def)

lemma threads_build_profile:
  "threads (build_profile rnd clock buffer) =
     [get_empty_thread
        \<lparr> th_name := ''sh-profile'', th_isMainThread := True,
          th_markers := fst (add_markers rnd
             (if buffer \<noteq> [] then get_timestamp_ms rnd (fst (hd buffer)) else 0)
             [''sh-profile'' \<mapsto> 0]
             (th_markers get_empty_thread, UniqueStringArray_init None) buffer),
          th_stringArray := serialize_to_array (snd (add_markers rnd
             (if buffer \<noteq> [] then get_timestamp_ms rnd (fst (hd buffer)) else 0)
             [''sh-profile'' \<mapsto> 0]
             (th_markers get_empty_thread, UniqueStringArray_init None) buffer)) \<rparr>]"
  by (simp add: build_profile_def Let_def split_beta get_empty_profile_def get_categories_def)

lemma markers_of_build_profile:
  "markers_of (build_profile rnd clock buffer) =
     fst (add_markers rnd
       (if buffer \<noteq> [] then get_timestamp_ms rnd (fst (hd buffer)) else 0)
       [''sh-profile'' \<mapsto> 0]
       (th_markers get_empty_thread, UniqueStringArray_init None) buffer)"
  by (simp add: markers_of_def threads_build_profile)

lemma empty_markers:
  "th_markers get_empty_thread =
     \<lparr> mk_data = [], mk_name = [], mk_startTime = [], mk_endTime = [], mk_phase = [],
       mk_category = [], mk_length = 0 \<rparr>"
  by (simp add: get_empty_thread_def)

lemma meta_startTime_build_profile:
  "meta_startTime (meta (build_profile rnd clock buffer)) =
     (if buffer \<noteq> [] then get_timestamp_ms rnd (fst (hd buffer)) else rnd (clock * 1000))"
  by (simp add: build_profile_def Let_def split_beta get_empty_profile_def)

text \<open>
  Claim C1. For every buffer of line events, the profile that \<^verbatim>\<open>build_profile\<close>
  returns has one thread, and in its marker table the columns startTime, endTime,
  phase, category, name and data all have the length of the buffer, which is also the
  value of the table's length field.
\<close>

theorem marker_columns_same_length:
  "length (threads (build_profile rnd clock buffer)) = 1
   \<and> length (mk_startTime (markers_of (build_profile rnd clock buffer))) = length buffer
   \<and> length (mk_endTime (markers_of (build_profile rnd clock buffer))) = length buffer
   \<and> length (mk_phase (markers_of (build_profile rnd clock buffer))) = length buffer
   \<and> length (mk_category (markers_of (build_profile rnd clock buffer))) = length buffer
   \<and> length (mk_name (markers_of (build_profile rnd clock buffer))) = length buffer
   \<and> length (mk_data (markers_of (build_profile rnd clock buffer))) = length buffer
   \<and> mk_length (markers_of (build_profile rnd clock buffer)) = int (length buffer)"
  by (simp add: threads_build_profile markers_of_build_profile empty_markers
      add_markers_startTime add_markers_endTime add_markers_phase add_markers_category
      add_markers_name add_markers_data add_markers_length)

text \<open>
  Claim C3. For a non-empty buffer, \<^verbatim>\<open>meta.startTime\<close> of the built profile is the
  first event's timestamp in milliseconds, and the first relative start time of the
  marker table is 0. For the empty buffer, \<^verbatim>\<open>meta.startTime\<close> is the value
  \<^verbatim>\<open>get_empty_profile\<close> set from the wall clock. The first start time is the rounded
  difference of a float with itself, so the rounding has to keep zero.
\<close>

theorem profile_start_time:
  assumes "rnd 0 = 0"
  shows "(buffer \<noteq> [] \<longrightarrow>
            meta_startTime (meta (build_profile rnd clock buffer))
              = get_timestamp_ms rnd (fst (hd buffer))
          \<and> mk_startTime (markers_of (build_profile rnd clock buffer)) \<noteq> []
          \<and> hd (mk_startTime (markers_of (build_profile rnd clock buffer))) = 0)
       \<and> (buffer = [] \<longrightarrow>
            meta_startTime (meta (build_profile rnd clock buffer))
              = meta_startTime (meta (get_empty_profile rnd clock)))"
proof (cases buffer)
  case Nil
  then show ?thesis
    by (simp add: meta_startTime_build_profile get_empty_profile_def)
next
  case (Cons e rest)
  then show ?thesis
    using assms
    by (simp add: meta_startTime_build_profile markers_of_build_profile
        add_markers_startTime empty_markers)
qed

text \<open>Two events at 7 s and 9 s, and the empty buffer, with the clock at 5 s.\<close>

theorem profile_start_time_witness:
  "(\<lambda>x::real. x) 0 = 0
   \<and> [(datetime_at 7, ''make''), (datetime_at 9, ''done'')] \<noteq> []
   \<and> meta_startTime (meta (build_profile (\<lambda>x. x) 5
        [(datetime_at 7, ''make''), (datetime_at 9, ''done'')])) = 7000
   \<and> hd (mk_startTime (markers_of (build_profile (\<lambda>x. x) 5
        [(datetime_at 7, ''make''), (datetime_at 9, ''done'')]))) = 0
   \<and> meta_startTime (meta (build_profile (\<lambda>x. x) 5 [])) = 5000"
  using profile_start_time [of "\<lambda>x. x" "[(datetime_at 7, ''make''), (datetime_at 9, ''done'')]" 5]
    profile_start_time [of "\<lambda>x. x" "[]" 5]
  by (simp add: get_timestamp_ms_def datetime_at_def get_empty_profile_def)

lemma get_timestamp_ms_mono:
  "mono rnd \<Longrightarrow> dt_timestamp a \<le> dt_timestamp b \<Longrightarrow>
   get_timestamp_ms rnd a \<le> get_timestamp_ms rnd b"
  by (simp add: get_timestamp_ms_def monoD)

lemma sorted_relative:
  "mono rnd \<Longrightarrow> sorted (map (\<lambda>e. dt_timestamp (fst e)) buffer) \<Longrightarrow>
   sorted (map (\<lambda>e. rnd (get_timestamp_ms rnd (fst e) - t0)) buffer)"
proof (induction buffer)
  case Nil
  then show ?case by simp
next
  case (Cons e buffer)
  have "rnd (get_timestamp_ms rnd (fst e) - t0) \<le> rnd (get_timestamp_ms rnd (fst x) - t0)"
    if "x \<in> set buffer" for x
  proof -
    have "dt_timestamp (fst e) \<le> dt_timestamp (fst x)" using Cons.prems(2) that by auto
    then have "get_timestamp_ms rnd (fst e) \<le> get_timestamp_ms rnd (fst x)"
      using Cons.prems(1) by (rule get_timestamp_ms_mono [rotated])
    then show ?thesis using Cons.prems(1) by (simp add: monoD)
  qed
  then show ?case using Cons by auto
qed

text \<open>
  Claim C9. For a buffer whose timestamps are non-decreasing, the relative start times
  of the marker table are non-decreasing, and the start time at position i is the one
  of the event at position i: the list of start times is the list of events mapped to
  their timestamps relative to \<^verbatim>\<open>meta.startTime\<close>. Equal timestamps give equal start
  times. The rounding of the float operations has to be monotone.
\<close>

theorem start_times_nondecreasing:
  assumes "mono rnd"
    and "sorted (map (\<lambda>e. dt_timestamp (fst e)) buffer)"
  shows "sorted (mk_startTime (markers_of (build_profile rnd clock buffer)))
       \<and> mk_startTime (markers_of (build_profile rnd clock buffer))
           = map (\<lambda>e. rnd (get_timestamp_ms rnd (fst e)
                            - meta_startTime (meta (build_profile rnd clock buffer)))) buffer"
proof (cases buffer)
  case Nil
  then show ?thesis
    by (simp add: markers_of_build_profile empty_markers)
next
  case (Cons e rest)
  have cols: "mk_startTime (markers_of (build_profile rnd clock buffer))
      = map (\<lambda>x. rnd (get_timestamp_ms rnd (fst x) - get_timestamp_ms rnd (fst e))) buffer"
    using Cons by (simp add: markers_of_build_profile add_markers_startTime empty_markers)
  have start: "meta_startTime (meta (build_profile rnd clock buffer)) = get_timestamp_ms rnd (fst e)"
    using Cons by (simp add: meta_startTime_build_profile)
  show ?thesis
    using sorted_relative [OF assms, of "get_timestamp_ms rnd (fst e)"] cols start by simp
qed

text \<open>Three events, the first two with the same timestamp.\<close>

theorem start_times_nondecreasing_witness:
  "mono (\<lambda>x::real. x)
   \<and> sorted (map (\<lambda>e. dt_timestamp (fst e))
        [(datetime_at 7, ''make''), (datetime_at 7, ''cc''), (datetime_at 9, ''done'')])
   \<and> sorted (mk_startTime (markers_of (build_profile (\<lambda>x. x) 5
        [(datetime_at 7, ''make''), (datetime_at 7, ''cc''), (datetime_at 9, ''done'')])))
   \<and> mk_startTime (markers_of (build_profile (\<lambda>x. x) 5
        [(datetime_at 7, ''make''), (datetime_at 7, ''cc''), (datetime_at 9, ''done'')]))
       = [0, 0, 2000]"
  using start_times_nondecreasing [of "\<lambda>x. x"
      "[(datetime_at 7, ''make''), (datetime_at 7, ''cc''), (datetime_at 9, ''done'')]" 5]
  by (simp add: mono_def meta_startTime_build_profile get_timestamp_ms_def datetime_at_def)

section \<open>The recorder and the builder together\<close>

lemma run_command_example:
  "run_command \<lparr> stdout = Some [(''a\<newline>'', d0), ('''', d1), (''b\<newline>'', d2)] \<rparr>
     = Inr ([''a'', '''', ''b''], [(d0, ''a\<newline>''), (d2, ''b\<newline>'')])"
  by (simp add: run_command_def strip_def isspace_def match_sgr_not_esc)

text \<open>
  Claim C4, as the code has it. When the command emits the lines \<open>a\<close> with its
  newline, the empty string, and \<open>b\<close> with its newline, at any three times, the echo
  prints \<open>a\<close>, an empty line and \<open>b\<close>, the buffer holds two events, and the marker table
  built from it has exactly 2 markers whose \<^verbatim>\<open>data.line\<close> values are \<open>a\<close> and \<open>b\<close>
  each followed by its newline, in this order; the first marker's relative start time
  is 0. Only the echo drops the last character of a line.
\<close>

theorem end_to_end_scenario:
  assumes "rnd 0 = 0"
  shows "run_command
           \<lparr> stdout = Some [(''a\<newline>'', d0), ('''', d1), (''b\<newline>'', d2)] \<rparr>
           = Inr ([''a'', '''', ''b''], [(d0, ''a\<newline>''), (d2, ''b\<newline>'')])
       \<and> mk_length (markers_of (build_profile rnd clock
             [(d0, ''a\<newline>''), (d2, ''b\<newline>'')])) = 2
       \<and> map md_line (mk_data (markers_of (build_profile rnd clock
             [(d0, ''a\<newline>''), (d2, ''b\<newline>'')])))
           = [''a\<newline>'', ''b\<newline>'']
       \<and> length (mk_startTime (markers_of (build_profile rnd clock
             [(d0, ''a\<newline>''), (d2, ''b\<newline>'')]))) = 2
       \<and> hd (mk_startTime (markers_of (build_profile rnd clock
             [(d0, ''a\<newline>''), (d2, ''b\<newline>'')]))) = 0"
  using assms
  by (simp add: run_command_example markers_of_build_profile add_markers_length
      add_markers_data add_markers_startTime empty_markers del: add_markers.simps)

text \<open>The scenario at the times 1 s, 2 s and 3 s.\<close>

theorem end_to_end_scenario_witness:
  "(\<lambda>x::real. x) 0 = 0
   \<and> run_command
       \<lparr> stdout = Some [(''a\<newline>'', datetime_at 1), ('''', datetime_at 2),
                        (''b\<newline>'', datetime_at 3)] \<rparr>
       = Inr ([''a'', '''', ''b''],
              [(datetime_at 1, ''a\<newline>''), (datetime_at 3, ''b\<newline>'')])
   \<and> mk_length (markers_of (build_profile (\<lambda>x. x) 0
         [(datetime_at 1, ''a\<newline>''), (datetime_at 3, ''b\<newline>'')])) = 2
   \<and> hd (mk_startTime (markers_of (build_profile (\<lambda>x. x) 0
         [(datetime_at 1, ''a\<newline>''), (datetime_at 3, ''b\<newline>'')]))) = 0"
  using end_to_end_scenario [of "\<lambda>x. x" "datetime_at 1" "datetime_at 2" "datetime_at 3" 0]
  by simp

text \<open>
  Claim C4 as stated fails: at the strictly increasing times 1 s, 2 s and 3 s, the
  \<^verbatim>\<open>data.line\<close> values of the two markers are not \<open>a\<close> and \<open>b\<close>.
\<close>

theorem end_to_end_lines_counterexample:
  "dt_timestamp (datetime_at 1) < dt_timestamp (datetime_at 2)
   \<and> dt_timestamp (datetime_at 2) < dt_timestamp (datetime_at 3)
   \<and> run_command
       \<lparr> stdout = Some [(''a\<newline>'', datetime_at 1), ('''', datetime_at 2),
                        (''b\<newline>'', datetime_at 3)] \<rparr>
       = Inr ([''a'', '''', ''b''],
              [(datetime_at 1, ''a\<newline>''), (datetime_at 3, ''b\<newline>'')])
   \<and> map md_line (mk_data (markers_of (build_profile (\<lambda>x. x) 0
         [(datetime_at 1, ''a\<newline>''), (datetime_at 3, ''b\<newline>'')])))
       \<noteq> [''a'', ''b'']"
  by (simp add: run_command_example markers_of_build_profile add_markers_data empty_markers datetime_at_def
      del: add_markers.simps)

section \<open>Properties of the one-time server\<close>

lemma handle_request_waiting:
  "waiting_for_request (handle_request pd st req)
     = (waiting_for_request st \<and> \<not> ends_loop req)"
  by (cases "req_method req"; cases "req_headers_write req"; cases "req_body_write req")
     (auto simp: handle_request_def do_GET_def do_HEAD_def set_headers_def ends_loop_def Let_def)

lemma serve_loop_append:
  "waiting_for_request st \<Longrightarrow> \<not> list_ex ends_loop earlier \<Longrightarrow>
   serve_loop pd st (earlier @ rest) = serve_loop pd (foldl (handle_request pd) st earlier) rest"
  by (induction earlier arbitrary: st) (auto simp: handle_request_waiting)

lemma foldl_waiting:
  "waiting_for_request st \<Longrightarrow> \<not> list_ex ends_loop earlier \<Longrightarrow>
   waiting_for_request (foldl (handle_request pd) st earlier)"
  by (induction earlier arbitrary: st) (auto simp: handle_request_waiting)

text \<open>
  Claim C2, as the code has it. For every profile and every sequence of requests: as
  long as no GET request with its headers written has arrived, every request is
  handled and the loop goes on listening. The first GET request whose headers are
  written leaves the loop when it completes, with the body sent or with a failure of
  the body's write, and the requests after it are not handled: the server's state is
  the one after that GET, whatever arrives later.
\<close>

theorem serving_stops_at_first_get:
  assumes "\<not> list_ex ends_loop earlier"
  shows "open_profile prof command port earlier
           = Listening (foldl (handle_request prof)
               \<lparr> waiting_for_request = True, effects = [BrowserOpen port (join_space command)] \<rparr>
               earlier)
       \<and> (ends_loop req \<longrightarrow>
            open_profile prof command port (earlier @ req # later)
              = Stopped (handle_request prof (foldl (handle_request prof)
                   \<lparr> waiting_for_request = True,
                     effects = [BrowserOpen port (join_space command)] \<rparr> earlier) req) later
            \<and> \<not> waiting_for_request (handle_request prof (foldl (handle_request prof)
                   \<lparr> waiting_for_request = True,
                     effects = [BrowserOpen port (join_space command)] \<rparr> earlier) req))"
proof -
  let ?init = "\<lparr> waiting_for_request = True,
                 effects = [BrowserOpen port (join_space command)] \<rparr> :: profile server"
  have w: "waiting_for_request ?init" by simp
  have after: "waiting_for_request (foldl (handle_request prof) ?init earlier)"
    using w assms by (rule foldl_waiting)
  have "serve_loop prof ?init (earlier @ []) = serve_loop prof (foldl (handle_request prof) ?init earlier) []"
    using w assms by (rule serve_loop_append)
  then have a: "open_profile prof command port earlier
      = Listening (foldl (handle_request prof) ?init earlier)"
    using after by (simp add: open_profile_def)
  have "serve_loop prof ?init (earlier @ req # later)
      = serve_loop prof (foldl (handle_request prof) ?init earlier) (req # later)"
    using w assms by (rule serve_loop_append)
  then have b: "ends_loop req \<longrightarrow>
      open_profile prof command port (earlier @ req # later)
        = Stopped (handle_request prof (foldl (handle_request prof) ?init earlier) req) later
      \<and> \<not> waiting_for_request (handle_request prof (foldl (handle_request prof) ?init earlier) req)"
    using after by (cases later) (simp_all add: open_profile_def handle_request_waiting)
  show ?thesis using a b by blast
qed

text \<open>A HEAD request, a GET request whose body write fails, and one more GET request.\<close>

theorem serving_stops_at_first_get_witness:
  "\<not> list_ex ends_loop
       [\<lparr> req_method = HEAD, req_headers_write = Written, req_body_write = Written \<rparr>]
   \<and> ends_loop \<lparr> req_method = GET, req_headers_write = Written, req_body_write = Raises ''broken pipe'' \<rparr>
   \<and> open_profile (build_profile (\<lambda>x. x) 0 []) [''--'', ''ls''] 8000
        [\<lparr> req_method = HEAD, req_headers_write = Written, req_body_write = Written \<rparr>,
         \<lparr> req_method = GET, req_headers_write = Written, req_body_write = Raises ''broken pipe'' \<rparr>,
         \<lparr> req_method = GET, req_headers_write = Written, req_body_write = Written \<rparr>]
       = Stopped
           \<lparr> waiting_for_request = False,
             effects =
               [BrowserOpen 8000 ''-- ls'',
                SendHeaders 200 [(''Content-type'', ''application/json''),
                                 (''Access-Control-Allow-Origin'', ''*'')],
                SendHeaders 200 [(''Content-type'', ''application/json''),
                                 (''Access-Control-Allow-Origin'', ''*'')],
                Print StdOut ''Failed to serve the file broken pipe''] \<rparr>
           [\<lparr> req_method = GET, req_headers_write = Written, req_body_write = Written \<rparr>]"
  using serving_stops_at_first_get [of
      "[\<lparr> req_method = HEAD, req_headers_write = Written, req_body_write = Written \<rparr>]"
      "build_profile (\<lambda>x. x) 0 []" "[''--'', ''ls'']" 8000
      "\<lparr> req_method = GET, req_headers_write = Written, req_body_write = Raises ''broken pipe'' \<rparr>"
      "[\<lparr> req_method = GET, req_headers_write = Written, req_body_write = Written \<rparr>]"]
  by (simp add: ends_loop_def handle_request_def do_GET_def do_HEAD_def set_headers_def)

text \<open>
  Claim C2 as stated fails: after a first request with the method HEAD the loop is
  still listening, and the GET request that follows it is answered.
\<close>

theorem second_request_answered_counterexample:
  "open_profile (build_profile (\<lambda>x. x) 0 []) [''--'', ''ls''] 8000
     [\<lparr> req_method = HEAD, req_headers_write = Written, req_body_write = Written \<rparr>]
     = Listening
         \<lparr> waiting_for_request = True,
           effects =
             [BrowserOpen 8000 ''-- ls'',
              SendHeaders 200 [(''Content-type'', ''application/json''),
                               (''Access-Control-Allow-Origin'', ''*'')]] \<rparr>
   \<and> open_profile (build_profile (\<lambda>x. x) 0 []) [''--'', ''ls''] 8000
        [\<lparr> req_method = HEAD, req_headers_write = Written, req_body_write = Written \<rparr>,
         \<lparr> req_method = GET, req_headers_write = Written, req_body_write = Written \<rparr>]
       = Stopped
           \<lparr> waiting_for_request = False,
             effects =
               [BrowserOpen 8000 ''-- ls'',
                SendHeaders 200 [(''Content-type'', ''application/json''),
                                 (''Access-Control-Allow-Origin'', ''*'')],
                SendHeaders 200 [(''Content-type'', ''application/json''),
                                 (''Access-Control-Allow-Origin'', ''*'')],
                SendBody (build_profile (\<lambda>x. x) 0 [])] \<rparr>
           []"
  by (simp add: open_profile_def handle_request_def do_GET_def do_HEAD_def set_headers_def)

section \<open>Usage errors\<close>

text \<open>
  Claim C7, as the code has it. When the argument list is empty or its first element
  is not the double dash, the program exits with status 1 and starts no subprocess. It
  prints the help text to standard output; for a missing double dash it first prints
  the line about it to standard error.
\<close>

theorem usage_error:
  assumes "command = [] \<or> hd command \<noteq> ''--''"
  shows "snd (main rnd w command) = Exit 1
       \<and> fst (main rnd w command) =
           (if command = [] then [PrintHelp StdOut]
            else [Print StdErr ''No -- was found at the start of the command'',
                  PrintHelp StdOut])
       \<and> (\<forall>c. Popen c \<notin> set (fst (main rnd w command)))"
  using assms by (auto simp: main_def)

text \<open>The arguments \<open>ls -l\<close> without the double dash.\<close>

theorem usage_error_witness:
  "([''ls'', ''-l''] = [] \<or> hd [''ls'', ''-l''] \<noteq> ''--'')
   \<and> main (\<lambda>x. x)
        \<lparr> w_process = \<lparr> stdout = Some [] \<rparr>, w_clock = 0, w_port = 8000, w_requests = [] \<rparr>
        [''ls'', ''-l'']
       = ([Print StdErr ''No -- was found at the start of the command'', PrintHelp StdOut],
          Exit 1)"
  using usage_error [of "[''ls'', ''-l'']" "\<lambda>x. x"
      "\<lparr> w_process = \<lparr> stdout = Some [] \<rparr>, w_clock = 0, w_port = 8000, w_requests = [] \<rparr>"]
  by (simp add: prod_eq_iff)

text \<open>
  Claim C7 as stated fails: with no arguments the help text goes to standard output,
  and nothing is written to standard error.
\<close>

theorem help_stream_counterexample:
  "main (\<lambda>x. x)
     \<lparr> w_process = \<lparr> stdout = Some [] \<rparr>, w_clock = 0, w_port = 8000, w_requests = [] \<rparr> []
     = ([PrintHelp StdOut], Exit 1)
   \<and> PrintHelp StdErr \<notin> set (fst (main (\<lambda>x. x)
        \<lparr> w_process = \<lparr> stdout = Some [] \<rparr>, w_clock = 0, w_port = 8000, w_requests = [] \<rparr> []))"
  by (simp add: main_def)

end
